theory Spec2Isabelle
  imports Main "HOL-Library.AList"
begin

section \<open>Python values the framework handles\<close>

text \<open>
  The repository is a Python program: \<^verbatim>\<open>config/settings.py\<close> holds the class
  \<^verbatim>\<open>Settings\<close>, \<^verbatim>\<open>src/main.py\<close> the class \<^verbatim>\<open>CPEInnovationFramework\<close>.
  The objects of the libraries it calls (the language-model client, \<^verbatim>\<open>Agent\<close>,
  \<^verbatim>\<open>Task\<close>, \<^verbatim>\<open>Crew\<close>) are modelled by the keyword arguments the repository
  passes to their constructors; the repository never mutates them.
\<close>

subsection \<open>Exceptions\<close>

text \<open>
  \<^verbatim>\<open>KeyError\<close> carries the missing key and \<^verbatim>\<open>ValueError\<close> its message; both are
  raised by the repository's own statements. An exception raised by library code is
  described by the two observations the repository makes of it: whether it is an instance
  of \<^verbatim>\<open>Exception\<close> (\<^verbatim>\<open>KeyboardInterrupt\<close>, \<^verbatim>\<open>SystemExit\<close> and \<^verbatim>\<open>GeneratorExit\<close>
  derive from \<^verbatim>\<open>BaseException\<close> only) and the text \<^verbatim>\<open>str(e)\<close> gives.
\<close>

datatype py_exception =
    KeyError string
  | ValueError string
  | External bool string

subsection \<open>Dictionaries\<close>

text \<open>
  A Python \<^verbatim>\<open>dict\<close> keeps its keys in insertion order, and assigning to a key that is
  present replaces the value where it stands: an association list updated in place.
  A subscript read of a missing key raises \<^verbatim>\<open>KeyError\<close>.
\<close>

definition dict_setitem :: "string \<Rightarrow> 'v \<Rightarrow> (string \<times> 'v) list \<Rightarrow> (string \<times> 'v) list" where
  "dict_setitem k v d = AList.update k v d"

definition dict_getitem :: "(string \<times> 'v) list \<Rightarrow> string \<Rightarrow> py_exception + 'v" where
  "dict_getitem d k = (case map_of d k of None \<Rightarrow> Inl (KeyError k) | Some v \<Rightarrow> Inr v)"

definition dict_keys :: "(string \<times> 'v) list \<Rightarrow> string list" where
  "dict_keys d = map fst d"

definition dict_values :: "(string \<times> 'v) list \<Rightarrow> 'v list" where
  "dict_values d = map snd d"

section \<open>Configuration: \<^verbatim>\<open>config/settings.py\<close>\<close>

text \<open>
  The process environment (after \<^verbatim>\<open>load_dotenv()\<close>) maps variable names to strings.
  \<^verbatim>\<open>os.getenv(name)\<close> gives \<^verbatim>\<open>None\<close> for an unset variable,
  \<^verbatim>\<open>os.getenv(name, default)\<close> the default.
\<close>

type_synonym environ = "string \<Rightarrow> string option"

definition getenv :: "environ \<Rightarrow> string \<Rightarrow> string option" where
  "getenv env name = env name"

definition getenv_default :: "environ \<Rightarrow> string \<Rightarrow> string \<Rightarrow> string" where
  "getenv_default env name dflt = (case env name of None \<Rightarrow> dflt | Some v \<Rightarrow> v)"

text \<open>
  \<^verbatim>\<open>str.lower()\<close>, as far as the comparison of the class body needs it: the ASCII
  capitals are lowered and every other byte is kept. (No character outside ASCII lowers
  to one of the letters of \<^verbatim>\<open>"true"\<close>, so the comparison is decided by this.)
\<close>

definition lower_char :: "char \<Rightarrow> char" where
  "lower_char c =
     (if 65 \<le> (of_char c :: nat) \<and> (of_char c :: nat) \<le> 90
      then char_of ((of_char c :: nat) + 32) else c)"

definition lower :: "string \<Rightarrow> string" where
  "lower s = map lower_char s"

text \<open>
  The class \<^verbatim>\<open>Settings\<close>. Its attributes are computed once, when the class body
  runs:
  \<^verbatim>\<open>
  class Settings:
      OPENAI_API_KEY = os.getenv("OPENAI_API_KEY")
      OPENAI_MODEL = os.getenv("OPENAI_MODEL", "gpt-4")
      DEBUG = os.getenv("DEBUG", "true").lower() == "true"
      LOG_LEVEL = os.getenv("LOG_LEVEL", "INFO")
      NETWORK_TIMEOUT = int(os.getenv("NETWORK_TIMEOUT", "30"))
      MAX_DEVICES = int(os.getenv("MAX_CONCURRENT_DEVICES", "10"))
      PREDICTION_THRESHOLD = float(os.getenv("MAINTENANCE_PREDICTION_THRESHOLD", "0.7"))
      DEPLOYMENT_TIMEOUT = int(os.getenv("DEPLOYMENT_TIMEOUT", "300"))
  \<close>
  \<^verbatim>\<open>int\<close> and \<^verbatim>\<open>float\<close> are Python's built-in conversions, which raise
  \<^verbatim>\<open>ValueError\<close> on a string they do not accept; they are parameters \<open>py_int\<close> and
  \<open>py_float\<close> of the model, and \<open>'f\<close> is the type of floating-point values. When a
  conversion raises, the class body raises and there is no class \<^verbatim>\<open>Settings\<close>.
\<close>

record 'f Settings =
  OPENAI_API_KEY :: "string option"
  OPENAI_MODEL :: string
  DEBUG :: bool
  LOG_LEVEL :: string
  NETWORK_TIMEOUT :: int
  MAX_DEVICES :: int
  PREDICTION_THRESHOLD :: 'f
  DEPLOYMENT_TIMEOUT :: int

definition load_Settings ::
  "(string \<Rightarrow> py_exception + int) \<Rightarrow> (string \<Rightarrow> py_exception + 'f) \<Rightarrow> environ \<Rightarrow>
     py_exception + 'f Settings" where
  "load_Settings py_int py_float env =
     (let api_key = getenv env ''OPENAI_API_KEY'';
          model = getenv_default env ''OPENAI_MODEL'' ''gpt-4'';
          debug = (lower (getenv_default env ''DEBUG'' ''true'') = ''true'');
          log_level = getenv_default env ''LOG_LEVEL'' ''INFO''
      in case py_int (getenv_default env ''NETWORK_TIMEOUT'' ''30'') of
           Inl e \<Rightarrow> Inl e
         | Inr network_timeout \<Rightarrow>
      (case py_int (getenv_default env ''MAX_CONCURRENT_DEVICES'' ''10'') of
           Inl e \<Rightarrow> Inl e
         | Inr max_devices \<Rightarrow>
      (case py_float (getenv_default env ''MAINTENANCE_PREDICTION_THRESHOLD'' ''0.7'') of
           Inl e \<Rightarrow> Inl e
         | Inr prediction_threshold \<Rightarrow>
      (case py_int (getenv_default env ''DEPLOYMENT_TIMEOUT'' ''300'') of
           Inl e \<Rightarrow> Inl e
         | Inr deployment_timeout \<Rightarrow>
             Inr \<lparr> OPENAI_API_KEY = api_key,
                   OPENAI_MODEL = model,
                   DEBUG = debug,
                   LOG_LEVEL = log_level,
                   NETWORK_TIMEOUT = network_timeout,
                   MAX_DEVICES = max_devices,
                   PREDICTION_THRESHOLD = prediction_threshold,
                   DEPLOYMENT_TIMEOUT = deployment_timeout \<rparr>))))"

text \<open>Python's truth value of an optional string: \<^verbatim>\<open>None\<close> and \<^verbatim>\<open>""\<close> are false.\<close>

fun truthy :: "string option \<Rightarrow> bool" where
  "truthy None = False"
| "truthy (Some s) = (s \<noteq> [])"

text \<open>
  \<^verbatim>\<open>
  @classmethod
  def validate(cls):
      if not cls.OPENAI_API_KEY:
          raise ValueError("OPENAI_API_KEY is required")
      return True
  \<close>
\<close>

definition validate :: "'f Settings \<Rightarrow> py_exception + bool" where
  "validate cls =
     (if \<not> truthy (OPENAI_API_KEY cls) then Inl (ValueError ''OPENAI_API_KEY is required'')
      else Inr True)"

text \<open>
  An environment in which only the API key is set, and conversions that accept the
  default strings of the class body (as Python's do, with these values) and refuse every
  other string; the float is kept as its decimal digits.
\<close>

definition key_only_env :: environ where
  "key_only_env = Map.empty(''OPENAI_API_KEY'' \<mapsto> ''sk-test123'')"

definition int_of_default :: "string \<Rightarrow> py_exception + int" where
  "int_of_default s =
     (if s = ''30'' then Inr 30 else if s = ''10'' then Inr 10 else if s = ''300'' then Inr 300
      else Inl (ValueError (''invalid literal for int() with base 10: '' @ s)))"

definition float_of_default :: "string \<Rightarrow> py_exception + (int \<times> nat)" where
  "float_of_default s =
     (if s = ''0.7'' then Inr (7, 1)
      else Inl (ValueError (''could not convert string to float: '' @ s)))"

section \<open>The framework: \<^verbatim>\<open>src/main.py\<close>\<close>

subsection \<open>Library objects, by their constructor arguments\<close>

text \<open>
  \<^verbatim>\<open>ChatOpenAI(model="gpt-4", temperature=0.3, openai_api_key=os.getenv("OPENAI_API_KEY"))\<close>.
  The temperature literal is kept as its decimal digits (mantissa and number of decimal
  places): the repository does no arithmetic on it.
\<close>

datatype ChatOpenAI =
  ChatOpenAI (model: string) (temperature: "int \<times> nat") (openai_api_key: "string option")

record Agent =
  role :: string
  goal :: string
  backstory :: string
  verbose :: bool
  allow_delegation :: bool
  agent_llm :: ChatOpenAI

record Task =
  description :: string
  expected_output :: string
  agent :: Agent

datatype Process = sequential | hierarchical

record Crew =
  crew_agents :: "Agent list"
  crew_tasks :: "Task list"
  process :: Process
  crew_verbose :: nat

text \<open>
  The input payload is a \<^verbatim>\<open>Dict[str, Any]\<close>: its values are strings in every payload
  the repository builds; any other value is an \<open>Obj\<close>.
\<close>

datatype 'a py_value = Str string | Obj 'a

type_synonym 'a payload = "(string \<times> 'a py_value) list"

text \<open>
  The external sequential-execution facility, \<^verbatim>\<open>crew.kickoff(inputs=...)\<close>: it returns
  a value (Python's \<^verbatim>\<open>None\<close> is a possible one) or raises. Of a raised exception
  \<^verbatim>\<open>e\<close>, \<^verbatim>\<open>run_analysis\<close> observes \<^verbatim>\<open>isinstance(e, Exception)\<close> and \<^verbatim>\<open>str(e)\<close>.
\<close>

datatype 'r outcome = Returns "'r option" | Raises bool string

type_synonym ('a, 'r) facility = "Crew \<Rightarrow> 'a payload \<Rightarrow> 'r outcome"

subsection \<open>The framework object\<close>

record CPEInnovationFramework =
  llm :: ChatOpenAI
  crew :: "Crew option"
  agents :: "(string \<times> Agent) list"
  tasks :: "(string \<times> Task) list"

text \<open>\<^verbatim>\<open>__init__\<close>: the client is built from the environment; nothing is composed yet.\<close>

definition init :: "environ \<Rightarrow> CPEInnovationFramework" where
  "init env =
     \<lparr> llm = ChatOpenAI ''gpt-4'' (3, 1) (getenv env ''OPENAI_API_KEY''),
       crew = None,
       agents = [],
       tasks = [] \<rparr>"

text \<open>
  A method that can raise returns the exception or its value, together with the
  framework as the method left it: what a statement stored before the raise stays stored.
\<close>

type_synonym 'x raising = "(py_exception + 'x) \<times> CPEInnovationFramework"

subsection \<open>The static texts of the agents and tasks\<close>

definition NL :: string where
  "NL = [CHR 0x0A]"

definition network_optimizer_role :: string where
  "network_optimizer_role = ''Network Optimization Specialist''"

definition network_optimizer_goal :: string where
  "network_optimizer_goal = ''Deliver optimized network configurations with 99%+ compliance rates, automated troubleshooting workflows, and performance improvements measurable within 24 hours of deployment''"

definition network_optimizer_backstory :: string where
  "network_optimizer_backstory =
     ''You are a seasoned network engineer with deep expertise across '' @ NL @
     ''            Cisco, Juniper, Arista, and open-source networking stacks. You specialize in '' @ NL @
     ''            CPE middleware integration and cross-platform automation using Netmiko and NAPALM. '' @ NL @
     ''            Your focus is on creating vendor-agnostic solutions that work seamlessly across '' @ NL @
     ''            different hardware platforms.''"

definition maintenance_engineer_role :: string where
  "maintenance_engineer_role = ''Predictive Maintenance Engineer''"

definition maintenance_engineer_goal :: string where
  "maintenance_engineer_goal = ''Achieve 85%+ accuracy in failure prediction with optimized recall rates, generate actionable maintenance schedules, and minimize unplanned downtime through early anomaly detection''"

definition maintenance_engineer_backstory :: string where
  "maintenance_engineer_backstory =
     ''You are an industrial IoT expert with experience in time-series '' @ NL @
     ''            analysis, sensor data processing, and implementing ANAI-powered predictive '' @ NL @
     ''            workflows across diverse hardware ecosystems. You excel at turning raw sensor '' @ NL @
     ''            data into actionable maintenance insights that prevent equipment failures.''"

definition deployment_orchestrator_role :: string where
  "deployment_orchestrator_role = ''Service Deployment Orchestrator''"

definition deployment_orchestrator_goal :: string where
  "deployment_orchestrator_goal = ''Execute zero-downtime deployments with comprehensive monitoring, automated rollback capabilities, and detailed performance tracking for both containerized and native CPE applications''"

definition deployment_orchestrator_backstory :: string where
  "deployment_orchestrator_backstory =
     ''You are a DevOps architect specializing in CPE environments, '' @ NL @
     ''            with expertise in Kubernetes, Docker, and native middleware deployment patterns '' @ NL @
     ''            across prplOS and RDK-B platforms. You ensure reliable, scalable service '' @ NL @
     ''            deployments with minimal disruption to existing operations.''"

definition knowledge_curator_role :: string where
  "knowledge_curator_role = ''Knowledge Curation Manager''"

definition knowledge_curator_goal :: string where
  "knowledge_curator_goal = ''Maintain a high-quality, searchable repository of proven solutions with 90%+ community satisfaction ratings, automated quality scoring, and efficient skill module distribution''"

definition knowledge_curator_backstory :: string where
  "knowledge_curator_backstory =
     ''You are an open-source community manager with technical validation '' @ NL @
     ''            expertise, experienced in implementing peer-review workflows, automated testing '' @ NL @
     ''            pipelines, and community-driven quality assurance processes. You ensure that '' @ NL @
     ''            shared knowledge meets high standards and remains accessible to the community.''"

definition ecosystem_coordinator_role :: string where
  "ecosystem_coordinator_role = ''Ecosystem Coordination Director''"

definition ecosystem_coordinator_goal :: string where
  "ecosystem_coordinator_goal = ''Optimize cross-agent collaboration efficiency, maintain system-wide performance metrics above 95% availability, and facilitate sustainable community growth through intelligent task distribution and quality control''"

definition ecosystem_coordinator_backstory :: string where
  "ecosystem_coordinator_backstory =
     ''You are a distributed systems architect with extensive experience '' @ NL @
     ''            in multi-agent orchestration, community platform scaling, and enterprise-grade '' @ NL @
     ''            reliability engineering for middleware environments. You oversee the entire '' @ NL @
     ''            ecosystem to ensure smooth operation and continuous improvement.''"

definition network_analysis_description :: string where
  "network_analysis_description =
     ''Analyze current network configurations using Netmiko/NAPALM principles, '' @ NL @
     ''            identify optimization opportunities, generate compliance reports, and create automated '' @ NL @
     ''            troubleshooting workflows. Include performance benchmarking and vendor-agnostic '' @ NL @
     ''            configuration templates.'' @ NL @
     ''            '' @ NL @
     ''            Focus on:'' @ NL @
     ''            - Configuration compliance assessment'' @ NL @
     ''            - Performance optimization recommendations  '' @ NL @
     ''            - Automated troubleshooting script generation'' @ NL @
     ''            - Vendor-agnostic template creation'' @ NL @
     ''            - Security configuration validation''"

definition network_analysis_expected_output :: string where
  "network_analysis_expected_output =
     ''A comprehensive network optimization report containing:'' @ NL @
     ''            1. Current configuration analysis with compliance status'' @ NL @
     ''            2. Specific optimization recommendations with implementation steps'' @ NL @
     ''            3. Performance improvement projections with metrics'' @ NL @
     ''            4. Automated troubleshooting scripts ready for deployment'' @ NL @
     ''            5. Vendor-agnostic configuration templates'' @ NL @
     ''            6. Security assessment and recommendations''"

definition maintenance_prediction_description :: string where
  "maintenance_prediction_description =
     ''Process sensor data and time-series information using machine learning '' @ NL @
     ''            principles, generate failure probability assessments, create maintenance schedules, '' @ NL @
     ''            and implement anomaly detection workflows.'' @ NL @
     ''            '' @ NL @
     ''            Analyze:'' @ NL @
     ''            - Historical sensor data patterns'' @ NL @
     ''            - Equipment performance trends'' @ NL @
     ''            - Failure correlation indicators'' @ NL @
     ''            - Maintenance schedule optimization'' @ NL @
     ''            - Anomaly detection thresholds''"

definition maintenance_prediction_expected_output :: string where
  "maintenance_prediction_expected_output =
     ''A comprehensive maintenance report including:'' @ NL @
     ''            1. Equipment health scores with failure probability assessments'' @ NL @
     ''            2. Prioritized maintenance schedules with risk-based timing'' @ NL @
     ''            3. Anomaly detection alerts with severity levels'' @ NL @
     ''            4. Preventive maintenance recommendations'' @ NL @
     ''            5. Cost-benefit analysis of maintenance actions'' @ NL @
     ''            6. Integration guidelines for ANAI workflows''"

definition service_deployment_description :: string where
  "service_deployment_description =
     ''Execute automated service deployments with comprehensive monitoring, '' @ NL @
     ''            implement rollback procedures, track performance metrics, and maintain compatibility '' @ NL @
     ''            across containerized and native environments.'' @ NL @
     ''            '' @ NL @
     ''            Manage:'' @ NL @
     ''            - Deployment pipeline automation'' @ NL @
     ''            - Performance monitoring setup'' @ NL @
     ''            - Rollback procedure implementation  '' @ NL @
     ''            - Compatibility validation'' @ NL @
     ''            - Resource optimization''"

definition service_deployment_expected_output :: string where
  "service_deployment_expected_output =
     ''A detailed deployment report containing:'' @ NL @
     ''            1. Deployment status with success metrics'' @ NL @
     ''            2. Performance monitoring dashboard configurations'' @ NL @
     ''            3. Automated rollback procedures and triggers'' @ NL @
     ''            4. Compatibility validation results across platforms'' @ NL @
     ''            5. Resource utilization optimization recommendations'' @ NL @
     ''            6. Integration points for existing CPE middleware''"

definition knowledge_curation_description :: string where
  "knowledge_curation_description =
     ''Review community-submitted solutions through automated testing and '' @ NL @
     ''            peer review, organize knowledge base, maintain version control, and implement '' @ NL @
     ''            quality scoring mechanisms for shared skill modules.'' @ NL @
     ''            '' @ NL @
     ''            Process:'' @ NL @
     ''            - Community contribution validation'' @ NL @
     ''            - Automated quality scoring'' @ NL @
     ''            - Peer review coordination'' @ NL @
     ''            - Knowledge base organization'' @ NL @
     ''            - Version control management''"

definition knowledge_curation_expected_output :: string where
  "knowledge_curation_expected_output =
     ''A curated knowledge repository report including:'' @ NL @
     ''            1. Validated community contributions with quality scores'' @ NL @
     ''            2. Organized skill modules with version tracking'' @ NL @
     ''            3. Peer review summaries and feedback integration'' @ NL @
     ''            4. Quality metrics and community satisfaction ratings'' @ NL @
     ''            5. Knowledge base search and discovery improvements'' @ NL @
     ''            6. Community engagement and growth analytics''"

definition ecosystem_coordination_description :: string where
  "ecosystem_coordination_description =
     ''Orchestrate agent interactions, monitor system health, distribute '' @ NL @
     ''            tasks based on priority and agent availability, implement quality control across '' @ NL @
     ''            all outputs, and maintain community ecosystem metrics.'' @ NL @
     ''            '' @ NL @
     ''            Coordinate:'' @ NL @
     ''            - Multi-agent workflow optimization'' @ NL @
     ''            - System performance monitoring'' @ NL @
     ''            - Quality control implementation'' @ NL @
     ''            - Community ecosystem health'' @ NL @
     ''            - Strategic planning and improvement''"

definition ecosystem_coordination_expected_output :: string where
  "ecosystem_coordination_expected_output =
     ''A comprehensive ecosystem management report including:'' @ NL @
     ''            1. System health dashboard with performance metrics'' @ NL @
     ''            2. Agent collaboration efficiency analysis'' @ NL @
     ''            3. Task distribution optimization recommendations'' @ NL @
     ''            4. Quality control audit results across all components'' @ NL @
     ''            5. Community growth metrics and engagement analysis'' @ NL @
     ''            6. Strategic recommendations for ecosystem improvement'' @ NL @
     ''            7. Integration roadmap for prpl Foundation tools''"

subsection \<open>The clock\<close>

text \<open>
  \<^verbatim>\<open>datetime.now()\<close> reads the system clock; every reading is an input of the method
  that takes it. \<^verbatim>\<open>isoformat()\<close> and \<^verbatim>\<open>str()\<close> follow the standard library:
  \<^verbatim>\<open>YYYY-MM-DDTHH:MM:SS\<close>, then \<^verbatim>\<open>.ffffff\<close> unless the microsecond is 0;
  \<^verbatim>\<open>str\<close> is \<^verbatim>\<open>isoformat(sep=' ')\<close>. The fields are within the ranges of
  \<^verbatim>\<open>datetime\<close> (a year has at most four digits).
\<close>

record datetime =
  year :: nat
  month :: nat
  day :: nat
  hour :: nat
  minute :: nat
  second :: nat
  microsecond :: nat

fun zero_padded :: "nat \<Rightarrow> nat \<Rightarrow> string" where
  "zero_padded 0 n = []"
| "zero_padded (Suc w) n = zero_padded w (n div 10) @ [''0123456789'' ! (n mod 10)]"

definition isoformat_sep :: "char \<Rightarrow> datetime \<Rightarrow> string" where
  "isoformat_sep sep d =
     zero_padded 4 (year d) @ ''-'' @ zero_padded 2 (month d) @ ''-'' @ zero_padded 2 (day d)
     @ [sep]
     @ zero_padded 2 (hour d) @ '':'' @ zero_padded 2 (minute d) @ '':'' @ zero_padded 2 (second d)
     @ (if microsecond d = 0 then [] else ''.'' @ zero_padded 6 (microsecond d))"

definition isoformat :: "datetime \<Rightarrow> string" where
  "isoformat d = isoformat_sep (CHR ''T'') d"

definition datetime_str :: "datetime \<Rightarrow> string" where
  "datetime_str d = isoformat_sep (CHR '' '') d"

subsection \<open>\<^verbatim>\<open>setup_agents\<close>\<close>

text \<open>The five \<^verbatim>\<open>Agent(...)\<close> calls, each bound to the framework's client.\<close>

definition network_optimizer :: "ChatOpenAI \<Rightarrow> Agent" where
  "network_optimizer l =
     \<lparr> role = network_optimizer_role, goal = network_optimizer_goal,
       backstory = network_optimizer_backstory,
       verbose = True, allow_delegation = False, agent_llm = l \<rparr>"

definition maintenance_engineer :: "ChatOpenAI \<Rightarrow> Agent" where
  "maintenance_engineer l =
     \<lparr> role = maintenance_engineer_role, goal = maintenance_engineer_goal,
       backstory = maintenance_engineer_backstory,
       verbose = True, allow_delegation = False, agent_llm = l \<rparr>"

definition deployment_orchestrator :: "ChatOpenAI \<Rightarrow> Agent" where
  "deployment_orchestrator l =
     \<lparr> role = deployment_orchestrator_role, goal = deployment_orchestrator_goal,
       backstory = deployment_orchestrator_backstory,
       verbose = True, allow_delegation = False, agent_llm = l \<rparr>"

definition knowledge_curator :: "ChatOpenAI \<Rightarrow> Agent" where
  "knowledge_curator l =
     \<lparr> role = knowledge_curator_role, goal = knowledge_curator_goal,
       backstory = knowledge_curator_backstory,
       verbose = True, allow_delegation = False, agent_llm = l \<rparr>"

definition ecosystem_coordinator :: "ChatOpenAI \<Rightarrow> Agent" where
  "ecosystem_coordinator l =
     \<lparr> role = ecosystem_coordinator_role, goal = ecosystem_coordinator_goal,
       backstory = ecosystem_coordinator_backstory,
       verbose = True, allow_delegation = True, agent_llm = l \<rparr>"

text \<open>
  \<^verbatim>\<open>
  def setup_agents(self):
      self.agents['network_optimizer'] = Agent(..., llm=self.llm)
      self.agents['maintenance_engineer'] = Agent(..., llm=self.llm)
      self.agents['deployment_orchestrator'] = Agent(..., llm=self.llm)
      self.agents['knowledge_curator'] = Agent(..., llm=self.llm)
      self.agents['ecosystem_coordinator'] = Agent(..., llm=self.llm)
  \<close>
\<close>

definition setup_agents :: "CPEInnovationFramework \<Rightarrow> CPEInnovationFramework" where
  "setup_agents self =
     (let self = self\<lparr>agents := dict_setitem ''network_optimizer'' (network_optimizer (llm self)) (agents self)\<rparr>;
          self = self\<lparr>agents := dict_setitem ''maintenance_engineer'' (maintenance_engineer (llm self)) (agents self)\<rparr>;
          self = self\<lparr>agents := dict_setitem ''deployment_orchestrator'' (deployment_orchestrator (llm self)) (agents self)\<rparr>;
          self = self\<lparr>agents := dict_setitem ''knowledge_curator'' (knowledge_curator (llm self)) (agents self)\<rparr>;
          self = self\<lparr>agents := dict_setitem ''ecosystem_coordinator'' (ecosystem_coordinator (llm self)) (agents self)\<rparr>
      in self)"

subsection \<open>\<^verbatim>\<open>setup_tasks\<close>\<close>

text \<open>The five \<^verbatim>\<open>Task(...)\<close> calls, each given the agent its statement looked up.\<close>

definition network_analysis :: "Agent \<Rightarrow> Task" where
  "network_analysis a =
     \<lparr> description = network_analysis_description,
       expected_output = network_analysis_expected_output, agent = a \<rparr>"

definition maintenance_prediction :: "Agent \<Rightarrow> Task" where
  "maintenance_prediction a =
     \<lparr> description = maintenance_prediction_description,
       expected_output = maintenance_prediction_expected_output, agent = a \<rparr>"

definition service_deployment :: "Agent \<Rightarrow> Task" where
  "service_deployment a =
     \<lparr> description = service_deployment_description,
       expected_output = service_deployment_expected_output, agent = a \<rparr>"

definition knowledge_curation :: "Agent \<Rightarrow> Task" where
  "knowledge_curation a =
     \<lparr> description = knowledge_curation_description,
       expected_output = knowledge_curation_expected_output, agent = a \<rparr>"

definition ecosystem_coordination :: "Agent \<Rightarrow> Task" where
  "ecosystem_coordination a =
     \<lparr> description = ecosystem_coordination_description,
       expected_output = ecosystem_coordination_expected_output, agent = a \<rparr>"

text \<open>
  One statement of \<^verbatim>\<open>setup_tasks\<close>,
  \<^verbatim>\<open>self.tasks[key] = Task(..., agent=self.agents[agent_key])\<close>: the right-hand side is
  evaluated first, so a missing agent raises \<^verbatim>\<open>KeyError\<close> before anything is stored.
\<close>

definition task_statement ::
  "string \<Rightarrow> (Agent \<Rightarrow> Task) \<Rightarrow> string \<Rightarrow> CPEInnovationFramework \<Rightarrow> unit raising" where
  "task_statement key mk agent_key self =
     (case dict_getitem (agents self) agent_key of
        Inl e \<Rightarrow> (Inl e, self)
      | Inr a \<Rightarrow> (Inr (), self\<lparr>tasks := dict_setitem key (mk a) (tasks self)\<rparr>))"

text \<open>Statements run in order; the first one that raises ends the method.\<close>

fun statements ::
  "(CPEInnovationFramework \<Rightarrow> unit raising) list \<Rightarrow> CPEInnovationFramework \<Rightarrow> unit raising" where
  "statements [] self = (Inr (), self)"
| "statements (st # rest) self =
     (case st self of
        (Inl e, self') \<Rightarrow> (Inl e, self')
      | (Inr u, self') \<Rightarrow> statements rest self')"

definition task_definitions :: "(string \<times> (Agent \<Rightarrow> Task) \<times> string) list" where
  "task_definitions =
     [(''network_analysis'', network_analysis, ''network_optimizer''),
      (''maintenance_prediction'', maintenance_prediction, ''maintenance_engineer''),
      (''service_deployment'', service_deployment, ''deployment_orchestrator''),
      (''knowledge_curation'', knowledge_curation, ''knowledge_curator''),
      (''ecosystem_coordination'', ecosystem_coordination, ''ecosystem_coordinator'')]"

definition setup_tasks :: "CPEInnovationFramework \<Rightarrow> unit raising" where
  "setup_tasks self =
     statements (map (\<lambda>(key, mk, agent_key). task_statement key mk agent_key) task_definitions) self"

subsection \<open>\<^verbatim>\<open>setup_crew\<close>\<close>

text \<open>
  \<^verbatim>\<open>
  def setup_crew(self):
      self.setup_agents()
      self.setup_tasks()
      self.crew = Crew(agents=list(self.agents.values()), tasks=list(self.tasks.values()),
                       process=Process.sequential, verbose=2)
  \<close>
\<close>

definition setup_crew :: "CPEInnovationFramework \<Rightarrow> unit raising" where
  "setup_crew self =
     (let self = setup_agents self in
      case setup_tasks self of
        (Inl e, self) \<Rightarrow> (Inl e, self)
      | (Inr u, self) \<Rightarrow>
          (Inr (),
           self\<lparr>crew := Some \<lparr> crew_agents = dict_values (agents self),
                               crew_tasks = dict_values (tasks self),
                               process = sequential,
                               crew_verbose = 2 \<rparr>\<rparr>))"

subsection \<open>\<^verbatim>\<open>run_analysis\<close>\<close>

text \<open>
  The payload substituted when \<^verbatim>\<open>input_data is None\<close>; its timestamp is the clock
  reading taken at that statement.
\<close>

definition default_input :: "datetime \<Rightarrow> 'a payload" where
  "default_input now =
     [(''network_config'', Str ''Current network configuration data''),
      (''sensor_data'', Str ''Equipment sensor readings and historical data''),
      (''service_specs'', Str ''Service deployment specifications''),
      (''community_contributions'', Str ''Recent community submissions''),
      (''timestamp'', Str (isoformat now))]"

text \<open>
  What a call of \<^verbatim>\<open>run_analysis\<close> leaves behind: the value it returns or the
  exception it lets through, the framework afterwards, and the lines it printed.
\<close>

record 'r run =
  result :: "py_exception + 'r option"
  after :: CPEInnovationFramework
  printed :: "string list"

text \<open>
  \<^verbatim>\<open>str(e)\<close> of the \<^verbatim>\<open>AttributeError\<close> that \<^verbatim>\<open>self.crew.kickoff\<close> raises when
  \<^verbatim>\<open>self.crew\<close> is \<^verbatim>\<open>None\<close>. It is raised inside the \<^verbatim>\<open>try\<close> block.
\<close>

definition NoneType_has_no_kickoff :: string where
  "NoneType_has_no_kickoff =
     [CHR 0x27] @ ''NoneType'' @ [CHR 0x27] @ '' object has no attribute ''
     @ [CHR 0x27] @ ''kickoff'' @ [CHR 0x27]"

text \<open>
  \<^verbatim>\<open>
  def run_analysis(self, input_data=None):
      if not self.crew:
          self.setup_crew()
      if input_data is None:
          input_data = {..., "timestamp": datetime.now().isoformat()}
      print(f"Starting CPE Innovation Framework Analysis at {datetime.now()}")
      print("Initializing specialized agents for comprehensive ecosystem analysis...")
      try:
          result = self.crew.kickoff(inputs=input_data)
          print("\nAnalysis completed successfully!")
          print("Generated comprehensive reports for ...")
          return result
      except Exception as e:
          print(f"Error during analysis: {str(e)}")
          return None
  \<close>
  \<open>kickoff\<close> is the external facility, \<open>now1\<close> the clock reading of the default
  payload (taken only when \<^verbatim>\<open>input_data is None\<close>), \<open>now2\<close> the reading of the first
  \<^verbatim>\<open>print\<close>. A \<^verbatim>\<open>Crew\<close> object is true; \<^verbatim>\<open>not self.crew\<close> holds for \<^verbatim>\<open>None\<close> only.
  \<^verbatim>\<open>except Exception\<close> handles the instances of \<^verbatim>\<open>Exception\<close>; any other exception
  leaves the method.
\<close>

definition run_analysis ::
  "('a, 'r) facility \<Rightarrow> datetime \<Rightarrow> datetime \<Rightarrow> 'a payload option \<Rightarrow>
     CPEInnovationFramework \<Rightarrow> 'r run" where
  "run_analysis kickoff now1 now2 input_data self =
     (case (if crew self = None then setup_crew self else (Inr (), self)) of
        (Inl e, self) \<Rightarrow> \<lparr> result = Inl e, after = self, printed = [] \<rparr>
      | (Inr u, self) \<Rightarrow>
          (let input_data = (case input_data of None \<Rightarrow> default_input now1 | Some d \<Rightarrow> d);
               out = [''Starting CPE Innovation Framework Analysis at '' @ datetime_str now2,
                      ''Initializing specialized agents for comprehensive ecosystem analysis...'']
           in case crew self of
                None \<Rightarrow>
                  \<lparr> result = Inr None, after = self,
                    printed = out @ [''Error during analysis: '' @ NoneType_has_no_kickoff] \<rparr>
              | Some c \<Rightarrow>
                  (case kickoff c input_data of
                     Returns v \<Rightarrow>
                       \<lparr> result = Inr v, after = self,
                         printed = out @
                           [NL @ ''Analysis completed successfully!'',
                            ''Generated comprehensive reports for network optimization, predictive maintenance, service deployment, knowledge curation, and ecosystem coordination.''] \<rparr>
                   | Raises derives txt \<Rightarrow>
                       if derives
                       then \<lparr> result = Inr None, after = self,
                              printed = out @ [''Error during analysis: '' @ txt] \<rparr>
                       else \<lparr> result = Inl (External False txt), after = self,
                              printed = out \<rparr>)))"

subsection \<open>\<^verbatim>\<open>get_system_status\<close>\<close>

text \<open>
  \<^verbatim>\<open>
  def get_system_status(self):
      return {"framework_status": "Active",
              "agents_count": len(self.agents),
              "tasks_count": len(self.tasks),
              "last_analysis": datetime.now().isoformat(),
              "crew_initialized": self.crew is not None}
  \<close>
  The returned dictionary has these five keys always: a record. \<open>now\<close> is the clock
  reading the call takes.
\<close>

record status =
  framework_status :: string
  agents_count :: nat
  tasks_count :: nat
  last_analysis :: string
  crew_initialized :: bool

definition get_system_status :: "datetime \<Rightarrow> CPEInnovationFramework \<Rightarrow> status" where
  "get_system_status now self =
     \<lparr> framework_status = ''Active'',
       agents_count = length (agents self),
       tasks_count = length (tasks self),
       last_analysis = isoformat now,
       crew_initialized = (crew self \<noteq> None) \<rparr>"

subsection \<open>Sequences of calls\<close>

text \<open>
  The public methods a client can call on one framework object, with the inputs each call
  takes from outside (the facility's behaviour, the clock readings, the payload). A
  client may catch an exception and go on using the object, so the framework a call
  leaves behind is the next call's, whether the call raised or not.
\<close>

datatype ('a, 'r) call =
    Call_setup_agents
  | Call_setup_tasks
  | Call_setup_crew
  | Call_run_analysis "('a, 'r) facility" datetime datetime "'a payload option"
  | Call_get_system_status datetime

fun perform :: "('a, 'r) call \<Rightarrow> CPEInnovationFramework \<Rightarrow> CPEInnovationFramework" where
  "perform Call_setup_agents self = setup_agents self"
| "perform Call_setup_tasks self = snd (setup_tasks self)"
| "perform Call_setup_crew self = snd (setup_crew self)"
| "perform (Call_run_analysis kickoff now1 now2 input_data) self =
     after (run_analysis kickoff now1 now2 input_data self)"
| "perform (Call_get_system_status now) self = self"

fun session :: "('a, 'r) call list \<Rightarrow> CPEInnovationFramework \<Rightarrow> CPEInnovationFramework" where
  "session [] self = self"
| "session (c # cs) self = session cs (perform c self)"

subsection \<open>The composed registries\<close>

text \<open>
  The contents the two registries and the crew have once they are built for a client
  \<open>l\<close>, in the order the statements of \<^verbatim>\<open>setup_agents\<close> and \<^verbatim>\<open>setup_tasks\<close>
  insert them.
\<close>

definition agent_registry :: "ChatOpenAI \<Rightarrow> (string \<times> Agent) list" where
  "agent_registry l =
     [(''network_optimizer'', network_optimizer l),
      (''maintenance_engineer'', maintenance_engineer l),
      (''deployment_orchestrator'', deployment_orchestrator l),
      (''knowledge_curator'', knowledge_curator l),
      (''ecosystem_coordinator'', ecosystem_coordinator l)]"

definition task_registry :: "ChatOpenAI \<Rightarrow> (string \<times> Task) list" where
  "task_registry l =
     [(''network_analysis'', network_analysis (network_optimizer l)),
      (''maintenance_prediction'', maintenance_prediction (maintenance_engineer l)),
      (''service_deployment'', service_deployment (deployment_orchestrator l)),
      (''knowledge_curation'', knowledge_curation (knowledge_curator l)),
      (''ecosystem_coordination'', ecosystem_coordination (ecosystem_coordinator l))]"

definition composed_crew :: "ChatOpenAI \<Rightarrow> Crew" where
  "composed_crew l =
     \<lparr> crew_agents = dict_values (agent_registry l),
       crew_tasks = dict_values (task_registry l),
       process = sequential,
       crew_verbose = 2 \<rparr>"

text \<open>
  What the five statements of \<^verbatim>\<open>setup_tasks\<close> make of a task registry \<open>d\<close> when
  every agent is found.
\<close>

definition tasks_after :: "ChatOpenAI \<Rightarrow> (string \<times> Task) list \<Rightarrow> (string \<times> Task) list" where
  "tasks_after l d =
     AList.update ''ecosystem_coordination'' (ecosystem_coordination (ecosystem_coordinator l))
      (AList.update ''knowledge_curation'' (knowledge_curation (knowledge_curator l))
       (AList.update ''service_deployment'' (service_deployment (deployment_orchestrator l))
        (AList.update ''maintenance_prediction'' (maintenance_prediction (maintenance_engineer l))
         (AList.update ''network_analysis'' (network_analysis (network_optimizer l)) d))))"

text \<open>
  The shapes a framework object has between calls: each registry is empty or fully
  built, tasks are built only over built agents, and a crew only over built tasks.
\<close>

definition consistent :: "CPEInnovationFramework \<Rightarrow> bool" where
  "consistent self \<longleftrightarrow>
     (agents self = [] \<or> agents self = agent_registry (llm self)) \<and>
     (tasks self = [] \<or>
        (tasks self = task_registry (llm self) \<and> agents self = agent_registry (llm self))) \<and>
     (crew self = None \<or>
        (crew self = Some (composed_crew (llm self)) \<and> tasks self = task_registry (llm self)))"

subsection \<open>Two clock readings\<close>

text \<open>Two readings of the clock on one day, two hours apart, for concrete runs.\<close>

definition reading_10h :: datetime where
  "reading_10h =
     \<lparr> year = 2026, month = 1, day = 15, hour = 10, minute = 0, second = 0, microsecond = 0 \<rparr>"

definition reading_12h :: datetime where
  "reading_12h =
     \<lparr> year = 2026, month = 1, day = 15, hour = 12, minute = 0, second = 0, microsecond = 0 \<rparr>"

section \<open>Verified properties\<close>

subsection \<open>Configuration\<close>

lemma validate_cases:
  "validate cls =
     (case OPENAI_API_KEY cls of
        None \<Rightarrow> Inl (ValueError ''OPENAI_API_KEY is required'')
      | Some k \<Rightarrow> if k = [] then Inl (ValueError ''OPENAI_API_KEY is required'') else Inr True)"
  by (cases "OPENAI_API_KEY cls") (simp_all add: validate_def)

lemma load_Settings_key:
  "load_Settings py_int py_float env = Inr cls \<Longrightarrow> OPENAI_API_KEY cls = env ''OPENAI_API_KEY''"
  by (auto simp: load_Settings_def getenv_def Let_def split: sum.splits)

text \<open>
  Claim C7. Whenever the class body of \<^verbatim>\<open>Settings\<close> has run (its conversions
  accepted the numeric variables), \<^verbatim>\<open>Settings.validate()\<close> raises the
  missing-credential error (\<^verbatim>\<open>ValueError("OPENAI_API_KEY is required")\<close>) if the
  environment variable \<^verbatim>\<open>OPENAI_API_KEY\<close> is unset or the empty string, and returns
  \<^verbatim>\<open>True\<close> if it is a non-empty string.
\<close>

theorem validate_missing_credential:
  assumes "load_Settings py_int py_float env = Inr cls"
  shows "validate cls =
     (if env ''OPENAI_API_KEY'' = None \<or> env ''OPENAI_API_KEY'' = Some []
      then Inl (ValueError ''OPENAI_API_KEY is required'')
      else Inr True)"
  using load_Settings_key [OF assms]
  by (cases "env ''OPENAI_API_KEY''") (simp_all add: validate_def)

lemma load_Settings_defaults:
  "env ''DEBUG'' = None \<Longrightarrow> env ''LOG_LEVEL'' = None \<Longrightarrow> env ''OPENAI_MODEL'' = None \<Longrightarrow>
   env ''NETWORK_TIMEOUT'' = None \<Longrightarrow> env ''MAX_CONCURRENT_DEVICES'' = None \<Longrightarrow>
   env ''MAINTENANCE_PREDICTION_THRESHOLD'' = None \<Longrightarrow> env ''DEPLOYMENT_TIMEOUT'' = None \<Longrightarrow>
   load_Settings int_of_default float_of_default env =
     Inr \<lparr> OPENAI_API_KEY = env ''OPENAI_API_KEY'', OPENAI_MODEL = ''gpt-4'', DEBUG = True,
           LOG_LEVEL = ''INFO'', NETWORK_TIMEOUT = 30, MAX_DEVICES = 10,
           PREDICTION_THRESHOLD = (7, 1), DEPLOYMENT_TIMEOUT = 300 \<rparr>"
  by (simp add: load_Settings_def getenv_def getenv_default_def int_of_default_def
      float_of_default_def lower_def lower_char_def)

theorem validate_missing_credential_witness:
  "load_Settings int_of_default float_of_default key_only_env =
     Inr \<lparr> OPENAI_API_KEY = Some ''sk-test123'', OPENAI_MODEL = ''gpt-4'', DEBUG = True,
           LOG_LEVEL = ''INFO'', NETWORK_TIMEOUT = 30, MAX_DEVICES = 10,
           PREDICTION_THRESHOLD = (7, 1), DEPLOYMENT_TIMEOUT = 300 \<rparr> \<and>
   validate \<lparr> OPENAI_API_KEY = Some ''sk-test123'', OPENAI_MODEL = ''gpt-4'', DEBUG = True,
           LOG_LEVEL = ''INFO'', NETWORK_TIMEOUT = 30, MAX_DEVICES = 10,
           PREDICTION_THRESHOLD = (7, 1) :: int \<times> nat, DEPLOYMENT_TIMEOUT = 300 \<rparr> = Inr True \<and>
   load_Settings int_of_default float_of_default Map.empty =
     Inr \<lparr> OPENAI_API_KEY = None, OPENAI_MODEL = ''gpt-4'', DEBUG = True,
           LOG_LEVEL = ''INFO'', NETWORK_TIMEOUT = 30, MAX_DEVICES = 10,
           PREDICTION_THRESHOLD = (7, 1), DEPLOYMENT_TIMEOUT = 300 \<rparr> \<and>
   validate \<lparr> OPENAI_API_KEY = None, OPENAI_MODEL = ''gpt-4'', DEBUG = True,
           LOG_LEVEL = ''INFO'', NETWORK_TIMEOUT = 30, MAX_DEVICES = 10,
           PREDICTION_THRESHOLD = (7, 1) :: int \<times> nat, DEPLOYMENT_TIMEOUT = 300 \<rparr> =
     Inl (ValueError ''OPENAI_API_KEY is required'')"
proof -
  have k: "load_Settings int_of_default float_of_default key_only_env =
     Inr \<lparr> OPENAI_API_KEY = Some ''sk-test123'', OPENAI_MODEL = ''gpt-4'', DEBUG = True,
           LOG_LEVEL = ''INFO'', NETWORK_TIMEOUT = 30, MAX_DEVICES = 10,
           PREDICTION_THRESHOLD = (7, 1), DEPLOYMENT_TIMEOUT = 300 \<rparr>"
    using load_Settings_defaults [of key_only_env] by (simp add: key_only_env_def)
  have e: "load_Settings int_of_default float_of_default Map.empty =
     Inr \<lparr> OPENAI_API_KEY = None, OPENAI_MODEL = ''gpt-4'', DEBUG = True,
           LOG_LEVEL = ''INFO'', NETWORK_TIMEOUT = 30, MAX_DEVICES = 10,
           PREDICTION_THRESHOLD = (7, 1), DEPLOYMENT_TIMEOUT = 300 \<rparr>"
    using load_Settings_defaults [of Map.empty] by simp
  show ?thesis
    using k e validate_missing_credential [OF k] validate_missing_credential [OF e]
    by (simp add: key_only_env_def)
qed

subsection \<open>Building the registries\<close>

lemma setup_agents_eq:
  "setup_agents self = self\<lparr>agents :=
     AList.update ''ecosystem_coordinator'' (ecosystem_coordinator (llm self))
      (AList.update ''knowledge_curator'' (knowledge_curator (llm self))
       (AList.update ''deployment_orchestrator'' (deployment_orchestrator (llm self))
        (AList.update ''maintenance_engineer'' (maintenance_engineer (llm self))
         (AList.update ''network_optimizer'' (network_optimizer (llm self)) (agents self)))))\<rparr>"
  by (simp add: setup_agents_def dict_setitem_def Let_def)

lemma setup_agents_fields [simp]:
  "llm (setup_agents self) = llm self"
  "tasks (setup_agents self) = tasks self"
  "crew (setup_agents self) = crew self"
  by (simp_all add: setup_agents_eq)

lemma setup_agents_lookup:
  "dict_getitem (agents (setup_agents self)) ''network_optimizer'' = Inr (network_optimizer (llm self))"
  "dict_getitem (agents (setup_agents self)) ''maintenance_engineer'' = Inr (maintenance_engineer (llm self))"
  "dict_getitem (agents (setup_agents self)) ''deployment_orchestrator'' = Inr (deployment_orchestrator (llm self))"
  "dict_getitem (agents (setup_agents self)) ''knowledge_curator'' = Inr (knowledge_curator (llm self))"
  "dict_getitem (agents (setup_agents self)) ''ecosystem_coordinator'' = Inr (ecosystem_coordinator (llm self))"
  by (simp_all add: setup_agents_eq dict_getitem_def update_conv')

lemma setup_agents_fresh:
  "agents self = [] \<Longrightarrow> agents (setup_agents self) = agent_registry (llm self)"
  by (simp add: setup_agents_eq agent_registry_def)

lemma setup_agents_again:
  "agents self = agent_registry (llm self) \<Longrightarrow> agents (setup_agents self) = agent_registry (llm self)"
  by (simp add: setup_agents_eq agent_registry_def)


lemma setup_agents_map_of:
  "map_of (agents (setup_agents self)) ''network_optimizer'' = Some (network_optimizer (llm self))"
  "map_of (agents (setup_agents self)) ''maintenance_engineer'' = Some (maintenance_engineer (llm self))"
  "map_of (agents (setup_agents self)) ''deployment_orchestrator'' = Some (deployment_orchestrator (llm self))"
  "map_of (agents (setup_agents self)) ''knowledge_curator'' = Some (knowledge_curator (llm self))"
  "map_of (agents (setup_agents self)) ''ecosystem_coordinator'' = Some (ecosystem_coordinator (llm self))"
  by (simp_all add: setup_agents_eq update_conv')

lemma setup_agents_idem: "setup_agents (setup_agents self) = setup_agents self"
  by (subst setup_agents_eq) (simp add: update_triv setup_agents_map_of)

lemma task_statement_found:
  "dict_getitem (agents self) agent_key = Inr a \<Longrightarrow>
   task_statement key mk agent_key self = (Inr (), self\<lparr>tasks := AList.update key (mk a) (tasks self)\<rparr>)"
  by (simp add: task_statement_def dict_setitem_def)

lemma task_statement_missing:
  "map_of (agents self) agent_key = None \<Longrightarrow>
   task_statement key mk agent_key self = (Inl (KeyError agent_key), self)"
  by (simp add: task_statement_def dict_getitem_def)

lemma setup_tasks_after_agents:
  "setup_tasks (setup_agents self) =
     (Inr (), (setup_agents self)\<lparr>tasks := tasks_after (llm self) (tasks self)\<rparr>)"
  by (simp add: setup_tasks_def task_definitions_def task_statement_def setup_agents_lookup
      dict_setitem_def tasks_after_def)

lemma setup_tasks_no_agents:
  "agents self = [] \<Longrightarrow> setup_tasks self = (Inl (KeyError ''network_optimizer''), self)"
  by (simp add: setup_tasks_def task_definitions_def task_statement_def dict_getitem_def)


lemma setup_agents_built:
  "agents self = agent_registry (llm self) \<Longrightarrow> setup_agents self = self"
  by (simp add: setup_agents_eq agent_registry_def)

lemma tasks_after_fresh: "tasks_after l [] = task_registry l"
  by (simp add: tasks_after_def task_registry_def)

lemma tasks_after_built: "tasks_after l (task_registry l) = task_registry l"
  by (simp add: tasks_after_def task_registry_def)

lemma tasks_after_idem: "tasks_after l (tasks_after l d) = tasks_after l d"
proof -
  have "map_of (tasks_after l d) ''network_analysis'' = Some (network_analysis (network_optimizer l))"
    "map_of (tasks_after l d) ''maintenance_prediction'' = Some (maintenance_prediction (maintenance_engineer l))"
    "map_of (tasks_after l d) ''service_deployment'' = Some (service_deployment (deployment_orchestrator l))"
    "map_of (tasks_after l d) ''knowledge_curation'' = Some (knowledge_curation (knowledge_curator l))"
    "map_of (tasks_after l d) ''ecosystem_coordination'' = Some (ecosystem_coordination (ecosystem_coordinator l))"
    by (simp_all add: tasks_after_def update_conv')
  then show ?thesis
    by (subst tasks_after_def) (simp add: update_triv)
qed

lemma setup_crew_eq:
  "setup_crew self =
     (Inr (),
      (setup_agents self)
        \<lparr>tasks := tasks_after (llm self) (tasks self),
         crew := Some \<lparr> crew_agents = dict_values (agents (setup_agents self)),
                        crew_tasks = dict_values (tasks_after (llm self) (tasks self)),
                        process = sequential, crew_verbose = 2 \<rparr>\<rparr>)"
  by (simp add: setup_crew_def setup_tasks_after_agents Let_def)

lemma consistent_init: "consistent (init env)"
  by (simp add: consistent_def init_def)

lemma consistent_setup_agents: "consistent self \<Longrightarrow> consistent (setup_agents self)"
  unfolding consistent_def
  by (auto simp: setup_agents_fresh setup_agents_again)

lemma consistent_setup_tasks: "consistent self \<Longrightarrow> consistent (snd (setup_tasks self))"
proof -
  assume c: "consistent self"
  show ?thesis
  proof (cases "agents self = []")
    case True
    with c show ?thesis by (simp add: setup_tasks_no_agents)
  next
    case False
    with c have a: "agents self = agent_registry (llm self)" by (auto simp: consistent_def)
    have e: "snd (setup_tasks self) = self\<lparr>tasks := tasks_after (llm self) (tasks self)\<rparr>"
      using setup_tasks_after_agents [of self] setup_agents_built [OF a] by simp
    from c a show ?thesis unfolding e consistent_def
      by (auto simp: tasks_after_fresh tasks_after_built)
  qed
qed

lemma setup_agents_consistent:
  assumes "consistent self"
  shows "setup_agents self = self\<lparr>agents := agent_registry (llm self)\<rparr>"
proof (cases "agents self = []")
  case True
  then show ?thesis by (simp add: setup_agents_eq agent_registry_def)
next
  case False
  with assms have a: "agents self = agent_registry (llm self)" by (auto simp: consistent_def)
  have "self\<lparr>agents := agents self\<rparr> = self" by simp
  with a setup_agents_built [OF a] show ?thesis by simp
qed

lemma consistent_setup_crew:
  assumes "consistent self"
  shows "snd (setup_crew self) =
           self\<lparr>agents := agent_registry (llm self), tasks := task_registry (llm self),
                crew := Some (composed_crew (llm self))\<rparr>"
proof -
  from assms have t: "tasks_after (llm self) (tasks self) = task_registry (llm self)"
    by (auto simp: consistent_def tasks_after_fresh tasks_after_built)
  show ?thesis
    by (simp add: setup_crew_eq setup_agents_consistent [OF assms] t composed_crew_def)
qed

subsection \<open>Composition, runs and sequences of calls\<close>

lemma setup_crew_returns: "fst (setup_crew self) = Inr ()"
  by (simp add: setup_crew_eq)

lemma setup_crew_composed: "crew (snd (setup_crew self)) \<noteq> None"
  by (simp add: setup_crew_eq)

lemma run_analysis_composed:
  assumes "crew self = Some c"
  shows "run_analysis kickoff now1 now2 input_data self =
     (let input_data = (case input_data of None \<Rightarrow> default_input now1 | Some d \<Rightarrow> d);
          out = [''Starting CPE Innovation Framework Analysis at '' @ datetime_str now2,
                 ''Initializing specialized agents for comprehensive ecosystem analysis...'']
      in case kickoff c input_data of
           Returns v \<Rightarrow>
             \<lparr> result = Inr v, after = self,
               printed = out @
                 [NL @ ''Analysis completed successfully!'',
                  ''Generated comprehensive reports for network optimization, predictive maintenance, service deployment, knowledge curation, and ecosystem coordination.''] \<rparr>
         | Raises derives txt \<Rightarrow>
             if derives
             then \<lparr> result = Inr None, after = self,
                    printed = out @ [''Error during analysis: '' @ txt] \<rparr>
             else \<lparr> result = Inl (External False txt), after = self, printed = out \<rparr>)"
  using assms by (simp add: run_analysis_def)


lemma run_analysis_uncomposed:
  assumes "crew self = None"
  shows "run_analysis kickoff now1 now2 input_data self =
           run_analysis kickoff now1 now2 input_data (snd (setup_crew self))"
proof -
  obtain s' where s': "setup_crew self = (Inr (), s')"
    using setup_crew_returns [of self] by (cases "setup_crew self") simp
  then obtain c' where "crew s' = Some c'"
    using setup_crew_composed [of self] by auto
  with assms s' show ?thesis
    by (simp add: run_analysis_def)
qed

lemma run_analysis_after:
  "after (run_analysis kickoff now1 now2 input_data self) =
     (if crew self = None then snd (setup_crew self) else self)"
proof -
  have composed: "after (run_analysis kickoff now1 now2 input_data s) = s" if "crew s = Some c" for s c
    unfolding run_analysis_composed [OF that]
    by (simp add: Let_def split: outcome.split)
  show ?thesis
  proof (cases "crew self")
    case None
    obtain c where "crew (snd (setup_crew self)) = Some c"
      using setup_crew_composed [of self] by auto
    then have "after (run_analysis kickoff now1 now2 input_data (snd (setup_crew self))) =
        snd (setup_crew self)"
      by (rule composed)
    then show ?thesis
      using None by (simp add: run_analysis_uncomposed [OF None, symmetric])
  next
    case (Some c)
    then show ?thesis using composed by simp
  qed
qed

lemma consistent_setup_tasks_eq:
  assumes "consistent self"
  shows "snd (setup_tasks self) =
           (if agents self = [] then self else self\<lparr>tasks := task_registry (llm self)\<rparr>)"
proof (cases "agents self = []")
  case True
  then show ?thesis by (simp add: setup_tasks_no_agents)
next
  case False
  with assms have a: "agents self = agent_registry (llm self)" by (auto simp: consistent_def)
  have "snd (setup_tasks self) = self\<lparr>tasks := tasks_after (llm self) (tasks self)\<rparr>"
    using setup_tasks_after_agents [of self] setup_agents_built [OF a] by simp
  moreover from assms have "tasks_after (llm self) (tasks self) = task_registry (llm self)"
    by (auto simp: consistent_def tasks_after_fresh tasks_after_built)
  ultimately show ?thesis using False by simp
qed

lemma consistent_perform: "consistent self \<Longrightarrow> consistent (perform c self) \<and> llm (perform c self) = llm self"
proof (cases c)
  case Call_setup_agents
  assume "consistent self"
  then show ?thesis unfolding Call_setup_agents
    by (simp add: consistent_setup_agents)
next
  case Call_setup_tasks
  assume c: "consistent self"
  have "consistent (snd (setup_tasks self))"
    using c by (rule consistent_setup_tasks)
  moreover have "llm (snd (setup_tasks self)) = llm self"
    by (simp add: consistent_setup_tasks_eq [OF c])
  ultimately show ?thesis unfolding Call_setup_tasks by simp
next
  case Call_setup_crew
  assume "consistent self"
  then show ?thesis unfolding Call_setup_crew
    by (simp add: consistent_setup_crew) (simp add: consistent_def)
next
  case (Call_run_analysis k n1 n2 i)
  assume c: "consistent self"
  then show ?thesis unfolding Call_run_analysis
    by (simp add: run_analysis_after consistent_setup_crew) (simp add: consistent_def)
next
  case (Call_get_system_status n)
  assume "consistent self"
  then show ?thesis unfolding Call_get_system_status by simp
qed

lemma consistent_session:
  "consistent self \<Longrightarrow> consistent (session calls self) \<and> llm (session calls self) = llm self"
proof (induction calls arbitrary: self)
  case Nil
  then show ?case by simp
next
  case (Cons c cs)
  from consistent_perform [OF Cons.prems, of c] Cons.IH [of "perform c self"]
  show ?case by simp
qed

lemma session_consistent: "consistent (session calls (init env))"
  by (simp add: consistent_session consistent_init)

lemma session_llm: "llm (session calls (init env)) = llm (init env)"
  by (simp add: consistent_session consistent_init)

lemma agent_registry_keys:
  "dict_keys (agent_registry l) =
     [''network_optimizer'', ''maintenance_engineer'', ''deployment_orchestrator'',
      ''knowledge_curator'', ''ecosystem_coordinator'']"
  by (simp add: dict_keys_def agent_registry_def)

lemma task_registry_keys:
  "dict_keys (task_registry l) =
     [''network_analysis'', ''maintenance_prediction'', ''service_deployment'',
      ''knowledge_curation'', ''ecosystem_coordination'']"
  by (simp add: dict_keys_def task_registry_def)

lemma registry_lengths: "length (agent_registry l) = 5" "length (task_registry l) = 5"
  by (simp_all add: agent_registry_def task_registry_def)

lemma session_setup_crew:
  "snd (setup_crew (session calls (init env))) =
     (session calls (init env))
       \<lparr>agents := agent_registry (llm (init env)), tasks := task_registry (llm (init env)),
        crew := Some (composed_crew (llm (init env)))\<rparr>"
  by (simp add: consistent_setup_crew [OF session_consistent] session_llm)

lemma setup_crew_idem: "setup_crew (snd (setup_crew self)) = (Inr (), snd (setup_crew self))"
proof -
  let ?s = "snd (setup_crew self)"
  have a: "setup_agents ?s = ?s"
    by (simp add: setup_crew_eq) (simp add: setup_agents_eq update_triv update_conv')
  have l: "llm ?s = llm self" and t: "tasks ?s = tasks_after (llm self) (tasks self)"
    and c: "crew ?s = Some \<lparr> crew_agents = dict_values (agents ?s),
                        crew_tasks = dict_values (tasks ?s),
                        process = sequential, crew_verbose = 2 \<rparr>"
    by (simp_all add: setup_crew_eq)
  have "setup_crew ?s = (Inr (), (setup_agents ?s)
        \<lparr>tasks := tasks_after (llm ?s) (tasks ?s),
         crew := Some \<lparr> crew_agents = dict_values (agents (setup_agents ?s)),
                        crew_tasks = dict_values (tasks_after (llm ?s) (tasks ?s)),
                        process = sequential, crew_verbose = 2 \<rparr>\<rparr>)"
    by (rule setup_crew_eq)
  also have "\<dots> = (Inr (), ?s\<lparr>tasks := tasks ?s, crew := crew ?s\<rparr>)"
    unfolding a l unfolding t tasks_after_idem using c t by simp
  finally show ?thesis by simp
qed

lemma composed_fixed:
  assumes "consistent self" and "crew self \<noteq> None"
  shows "perform c self = self"
proof -
  have "task_registry (llm self) \<noteq> []"
    by (simp add: task_registry_def)
  with assms have a: "agents self = agent_registry (llm self)"
    and t: "tasks self = task_registry (llm self)"
    by (auto simp: consistent_def)
  show ?thesis
  proof (cases c)
    case Call_setup_agents
    then show ?thesis by (simp add: setup_agents_built [OF a])
  next
    case Call_setup_tasks
    have "self\<lparr>tasks := tasks self\<rparr> = self" by simp
    then show ?thesis
      unfolding Call_setup_tasks using a t by (simp add: consistent_setup_tasks_eq [OF assms(1)])
  next
    case Call_setup_crew
    have "self\<lparr>agents := agents self, tasks := tasks self, crew := crew self\<rparr> = self" by simp
    moreover from assms have "crew self = Some (composed_crew (llm self))"
      by (auto simp: consistent_def)
    ultimately show ?thesis
      unfolding Call_setup_crew using a t by (simp add: consistent_setup_crew [OF assms(1)])
  next
    case (Call_run_analysis k n1 n2 i)
    then show ?thesis using assms(2) by (auto simp: run_analysis_after)
  next
    case (Call_get_system_status n)
    then show ?thesis by simp
  qed
qed

lemma composed_session:
  assumes "consistent self" and "crew self \<noteq> None"
  shows "session calls self = self"
  by (induction calls) (simp_all add: composed_fixed [OF assms])

lemma after_composition:
  "session calls2 (snd (setup_crew (session calls1 (init env)))) =
     snd (setup_crew (session calls1 (init env)))"
proof (rule composed_session)
  show "consistent (snd (setup_crew (session calls1 (init env))))"
    using consistent_perform [OF session_consistent, of Call_setup_crew calls1 env] by simp
  show "crew (snd (setup_crew (session calls1 (init env)))) \<noteq> None"
    by (rule setup_crew_composed)
qed

lemma isoformat_10h: "isoformat reading_10h = ''2026-01-15T10:00:00''"
  by code_simp

lemma isoformat_12h: "isoformat reading_12h = ''2026-01-15T12:00:00''"
  by code_simp

lemma run_analysis_result:
  "\<exists>c. crew (after (run_analysis kickoff now1 now2 input_data self)) = Some c \<and>
        result (run_analysis kickoff now1 now2 input_data self) =
          (case kickoff c (case input_data of None \<Rightarrow> default_input now1 | Some d \<Rightarrow> d) of
             Returns v \<Rightarrow> Inr v
           | Raises derives txt \<Rightarrow> if derives then Inr None else Inl (External False txt)) \<and>
        printed (run_analysis kickoff now1 now2 input_data self) =
          [''Starting CPE Innovation Framework Analysis at '' @ datetime_str now2,
           ''Initializing specialized agents for comprehensive ecosystem analysis...''] @
          (case kickoff c (case input_data of None \<Rightarrow> default_input now1 | Some d \<Rightarrow> d) of
             Returns v \<Rightarrow>
               [NL @ ''Analysis completed successfully!'',
                ''Generated comprehensive reports for network optimization, predictive maintenance, service deployment, knowledge curation, and ecosystem coordination.'']
           | Raises derives txt \<Rightarrow> if derives then [''Error during analysis: '' @ txt] else [])"
proof -
  have composed: "?thesis" if "crew self = Some c" for c
    unfolding run_analysis_composed [OF that] using that
    by (simp add: Let_def split: outcome.split)
  show ?thesis
  proof (cases "crew self")
    case None
    obtain c where c: "crew (snd (setup_crew self)) = Some c"
      using setup_crew_composed [of self] by auto
    show ?thesis
      unfolding run_analysis_uncomposed [OF None] run_analysis_composed [OF c] using c
      by (simp add: Let_def split: outcome.split)
  next
    case (Some c)
    then show ?thesis by (rule composed)
  qed
qed

subsection \<open>Tasks need their agents\<close>

text \<open>
  Claim C4. Called on a framework whose agent registry is empty (as \<^verbatim>\<open>__init__\<close> leaves
  it), \<^verbatim>\<open>setup_tasks\<close> fails with the unknown-agent error (\<^verbatim>\<open>KeyError\<close>): the method
  raises at its first statement and stores no task, and each of its five task statements,
  run on that framework, raises \<^verbatim>\<open>KeyError\<close> for the agent it looks up.
\<close>

theorem setup_tasks_before_setup_agents:
  assumes "agents self = []"
  shows "setup_tasks self = (Inl (KeyError ''network_optimizer''), self) \<and>
         map (\<lambda>(key, mk, agent_key). fst (task_statement key mk agent_key self)) task_definitions =
           [Inl (KeyError ''network_optimizer''),
            Inl (KeyError ''maintenance_engineer''),
            Inl (KeyError ''deployment_orchestrator''),
            Inl (KeyError ''knowledge_curator''),
            Inl (KeyError ''ecosystem_coordinator'')]"
  using assms
  by (simp add: setup_tasks_no_agents task_definitions_def task_statement_def dict_getitem_def)

theorem setup_tasks_before_setup_agents_witness:
  "agents (init Map.empty) = [] \<and>
   setup_tasks (init Map.empty) = (Inl (KeyError ''network_optimizer''), init Map.empty) \<and>
   tasks (snd (setup_tasks (init Map.empty))) = []"
proof -
  have h: "agents (init Map.empty) = []" by (simp add: init_def)
  show ?thesis
    using h setup_tasks_before_setup_agents [OF h] by (simp add: init_def)
qed

text \<open>
  Claim C9. Once \<^verbatim>\<open>setup_agents\<close> has run, on any framework, \<^verbatim>\<open>setup_tasks\<close> returns
  without raising: every one of the five agent keys its statements look up is found, with
  the agent \<^verbatim>\<open>setup_agents\<close> stored under it. On a framework reached by any sequence of
  calls from \<^verbatim>\<open>__init__\<close>, the task registry then holds exactly the five tasks.
\<close>

theorem setup_tasks_after_setup_agents:
  "fst (setup_tasks (setup_agents self)) = Inr () \<and>
   map (dict_getitem (agents (setup_agents self)))
       (map (\<lambda>(key, mk, agent_key). agent_key) task_definitions) =
     [Inr (network_optimizer (llm self)),
      Inr (maintenance_engineer (llm self)),
      Inr (deployment_orchestrator (llm self)),
      Inr (knowledge_curator (llm self)),
      Inr (ecosystem_coordinator (llm self))] \<and>
   dict_keys (tasks (snd (setup_tasks (setup_agents (session calls (init env)))))) =
     [''network_analysis'', ''maintenance_prediction'', ''service_deployment'',
      ''knowledge_curation'', ''ecosystem_coordination''] \<and>
   length (tasks (snd (setup_tasks (setup_agents (session calls (init env)))))) = 5"
proof -
  let ?s = "session calls (init env)"
  have c: "consistent ?s"
    by (rule session_consistent)
  then have "tasks_after (llm ?s) (tasks ?s) = task_registry (llm ?s)"
    by (auto simp: consistent_def tasks_after_fresh tasks_after_built)
  then have t: "tasks (snd (setup_tasks (setup_agents ?s))) = task_registry (llm ?s)"
    by (simp add: setup_tasks_after_agents)
  have 1: "fst (setup_tasks (setup_agents self)) = Inr ()"
    by (simp add: setup_tasks_after_agents)
  have 2: "map (dict_getitem (agents (setup_agents self)))
       (map (\<lambda>(key, mk, agent_key). agent_key) task_definitions) =
     [Inr (network_optimizer (llm self)),
      Inr (maintenance_engineer (llm self)),
      Inr (deployment_orchestrator (llm self)),
      Inr (knowledge_curator (llm self)),
      Inr (ecosystem_coordinator (llm self))]"
    by (simp add: task_definitions_def setup_agents_lookup)
  show ?thesis
    unfolding t using 1 2 by (simp add: task_registry_keys registry_lengths)
qed

subsection \<open>Composition and status\<close>

text \<open>
  Claim C5. For every environment and after any sequence of calls on a framework built
  by \<^verbatim>\<open>__init__\<close>, \<^verbatim>\<open>setup_crew\<close> returns without raising, and
  \<^verbatim>\<open>get_system_status\<close> called right after it reports 5 agents, 5 tasks and
  \<^verbatim>\<open>crew_initialized = True\<close>.
\<close>

theorem setup_crew_then_get_system_status:
  "fst (setup_crew (session calls (init env))) = Inr () \<and>
   get_system_status now (snd (setup_crew (session calls (init env)))) =
     \<lparr> framework_status = ''Active'', agents_count = 5, tasks_count = 5,
       last_analysis = isoformat now, crew_initialized = True \<rparr>"
  by (simp add: setup_crew_returns session_setup_crew get_system_status_def registry_lengths)

text \<open>
  Claim C6. \<^verbatim>\<open>setup_crew\<close> is idempotent. On every framework the first call returns
  without raising, and a second call right after it returns without raising and leaves
  the framework exactly as the first call left it: the registries and the crew are
  replaced by equal ones. On a framework reached from \<^verbatim>\<open>__init__\<close>, both registries
  then hold their five keys, none twice.
\<close>

theorem setup_crew_twice:
  "fst (setup_crew self) = Inr () \<and>
   setup_crew (snd (setup_crew self)) = (Inr (), snd (setup_crew self)) \<and>
   dict_keys (agents (snd (setup_crew (snd (setup_crew (session calls (init env))))))) =
     [''network_optimizer'', ''maintenance_engineer'', ''deployment_orchestrator'',
      ''knowledge_curator'', ''ecosystem_coordinator''] \<and>
   dict_keys (tasks (snd (setup_crew (snd (setup_crew (session calls (init env))))))) =
     [''network_analysis'', ''maintenance_prediction'', ''service_deployment'',
      ''knowledge_curation'', ''ecosystem_coordination''] \<and>
   distinct (dict_keys (agents (snd (setup_crew (snd (setup_crew (session calls (init env)))))))) \<and>
   distinct (dict_keys (tasks (snd (setup_crew (snd (setup_crew (session calls (init env))))))))"
proof -
  have twice: "snd (setup_crew (snd (setup_crew s))) = snd (setup_crew s)" for s
    by (simp add: setup_crew_idem)
  show ?thesis
    unfolding twice
    by (simp add: setup_crew_returns setup_crew_idem session_setup_crew agent_registry_keys
        task_registry_keys)
qed

subsection \<open>How tasks and agents are paired\<close>

text \<open>
  Claim C1 says that after composition the task registry has exactly the keys of the
  agent registry. It does not: the tasks are stored under names of their own
  (\<^verbatim>\<open>network_analysis\<close> for the agent \<^verbatim>\<open>network_optimizer\<close>, and so on), so already
  after \<^verbatim>\<open>setup_crew\<close> on a new framework the two key sets differ.
\<close>

theorem task_keys_differ_from_agent_keys:
  "set (dict_keys (tasks (snd (setup_crew (init key_only_env))))) \<noteq>
   set (dict_keys (agents (snd (setup_crew (init key_only_env)))))"
proof
  have s: "snd (setup_crew (init key_only_env)) =
      (init key_only_env)
       \<lparr>agents := agent_registry (llm (init key_only_env)),
        tasks := task_registry (llm (init key_only_env)),
        crew := Some (composed_crew (llm (init key_only_env)))\<rparr>"
    by (simp add: consistent_setup_crew [OF consistent_init])
  have "''network_analysis'' \<in> set (dict_keys (tasks (snd (setup_crew (init key_only_env)))))"
    unfolding s by (simp add: task_registry_keys)
  moreover assume "set (dict_keys (tasks (snd (setup_crew (init key_only_env))))) =
   set (dict_keys (agents (snd (setup_crew (init key_only_env)))))"
  ultimately have "''network_analysis'' \<in> set (dict_keys (agents (snd (setup_crew (init key_only_env)))))"
    by simp
  then show False
    unfolding s by (simp add: agent_registry_keys)
qed

text \<open>
  Claim C1, as the code has it. In every state reached by any calls after a
  \<^verbatim>\<open>setup_crew\<close> (itself after any calls on a new framework), the agent registry holds
  the five agent keys and the task registry the five task keys, in the order of their
  definition, and the two key sets are disjoint. Tasks and agents are paired one to one
  by position, as long as no later call was \<^verbatim>\<open>setup_agents\<close> on its own: the agent each
  task references is the agent the registry holds under the agent key that task's
  statement names, and the agents the five tasks reference are, in order, the registry's
  five agents. (A later \<^verbatim>\<open>setup_agents\<close> on its own stores five new \<^verbatim>\<open>Agent\<close> objects
  while the tasks keep the ones they looked up; an agent is modelled by its constructor
  arguments, which cannot tell the new objects from the old, so the pairing is stated
  only for the states in which the code keeps it.)
\<close>

theorem registries_paired_in_order:
  "dict_keys (agents (session calls2 (snd (setup_crew (session calls1 (init env)))))) =
     [''network_optimizer'', ''maintenance_engineer'', ''deployment_orchestrator'',
      ''knowledge_curator'', ''ecosystem_coordinator''] \<and>
   dict_keys (tasks (session calls2 (snd (setup_crew (session calls1 (init env)))))) =
     [''network_analysis'', ''maintenance_prediction'', ''service_deployment'',
      ''knowledge_curation'', ''ecosystem_coordination''] \<and>
   set (dict_keys (tasks (session calls2 (snd (setup_crew (session calls1 (init env))))))) \<inter>
   set (dict_keys (agents (session calls2 (snd (setup_crew (session calls1 (init env))))))) = {} \<and>
   (Call_setup_agents \<notin> set calls2 \<longrightarrow>
      map agent (dict_values (tasks (session calls2 (snd (setup_crew (session calls1 (init env))))))) =
        dict_values (agents (session calls2 (snd (setup_crew (session calls1 (init env)))))) \<and>
      map (\<lambda>(key, mk, agent_key).
             map_option agent
               (map_of (tasks (session calls2 (snd (setup_crew (session calls1 (init env)))))) key))
          task_definitions =
        map (\<lambda>(key, mk, agent_key).
               map_of (agents (session calls2 (snd (setup_crew (session calls1 (init env))))))
                 agent_key)
            task_definitions \<and>
      map (\<lambda>(key, mk, agent_key).
             map_of (agents (session calls2 (snd (setup_crew (session calls1 (init env))))))
               agent_key)
          task_definitions =
        [Some (network_optimizer (llm (init env))),
         Some (maintenance_engineer (llm (init env))),
         Some (deployment_orchestrator (llm (init env))),
         Some (knowledge_curator (llm (init env))),
         Some (ecosystem_coordinator (llm (init env)))])"
proof -
  let ?l = "llm (init env)"
  have a: "agents (session calls2 (snd (setup_crew (session calls1 (init env))))) = agent_registry ?l"
    and t: "tasks (session calls2 (snd (setup_crew (session calls1 (init env))))) = task_registry ?l"
    unfolding after_composition by (simp_all add: session_setup_crew)
  have 1: "map agent (dict_values (task_registry ?l)) = dict_values (agent_registry ?l)"
    by (simp add: dict_values_def task_registry_def agent_registry_def network_analysis_def
        maintenance_prediction_def service_deployment_def knowledge_curation_def
        ecosystem_coordination_def)
  have 2: "map (\<lambda>(key, mk, agent_key). map_option agent (map_of (task_registry ?l) key)) task_definitions =
     [Some (network_optimizer ?l), Some (maintenance_engineer ?l), Some (deployment_orchestrator ?l),
      Some (knowledge_curator ?l), Some (ecosystem_coordinator ?l)]"
    by (simp add: task_definitions_def task_registry_def network_analysis_def
        maintenance_prediction_def service_deployment_def knowledge_curation_def
        ecosystem_coordination_def)
  have 3: "map (\<lambda>(key, mk, agent_key). map_of (agent_registry ?l) agent_key) task_definitions =
     [Some (network_optimizer ?l), Some (maintenance_engineer ?l), Some (deployment_orchestrator ?l),
      Some (knowledge_curator ?l), Some (ecosystem_coordinator ?l)]"
    by (simp add: task_definitions_def agent_registry_def)
  have 4: "set (dict_keys (task_registry ?l)) \<inter> set (dict_keys (agent_registry ?l)) = {}"
    by (simp add: task_registry_keys agent_registry_keys)
  show ?thesis
    unfolding a t using 1 2 3 4 by (simp add: task_registry_keys agent_registry_keys)
qed

theorem registries_paired_in_order_witness:
  "Call_setup_agents \<notin>
     set [Call_setup_tasks, Call_get_system_status reading_12h :: (unit, unit) call] \<and>
   map agent (dict_values (tasks
      (session [Call_setup_tasks, Call_get_system_status reading_12h :: (unit, unit) call]
         (snd (setup_crew (session [Call_setup_agents :: (unit, unit) call] (init key_only_env))))))) =
   dict_values (agents
      (session [Call_setup_tasks, Call_get_system_status reading_12h :: (unit, unit) call]
         (snd (setup_crew (session [Call_setup_agents :: (unit, unit) call] (init key_only_env))))))"
proof -
  have h: "Call_setup_agents \<notin>
     set [Call_setup_tasks, Call_get_system_status reading_12h :: (unit, unit) call]"
    by simp
  show ?thesis
    using h registries_paired_in_order
      [of "[Call_setup_tasks, Call_get_system_status reading_12h :: (unit, unit) call]"
          "[Call_setup_agents :: (unit, unit) call]" key_only_env]
    by blast
qed

subsection \<open>Runs\<close>

text \<open>
  Claim C3. With a facility that returns a fixed value \<open>V\<close> for any input,
  \<^verbatim>\<open>run_analysis({})\<close> returns exactly \<open>V\<close> and so does \<^verbatim>\<open>run_analysis(None)\<close>, on every
  framework. What the facility receives is shown by a facility that returns its input:
  the empty dictionary is passed through as it is, and \<^verbatim>\<open>None\<close> is replaced by the
  default payload, whose \<^verbatim>\<open>timestamp\<close> field is the ISO text of the clock reading.
\<close>

theorem run_analysis_returns_facility_value:
  "result (run_analysis (\<lambda>c p. Returns V) now1 now2 (Some []) self) = Inr V \<and>
   result (run_analysis (\<lambda>c p. Returns V) now1 now2 None self) = Inr V \<and>
   result (run_analysis (\<lambda>c p. Returns (Some p)) now1 now2 (Some []) self) = Inr (Some []) \<and>
   result (run_analysis (\<lambda>c p. Returns (Some p)) now1 now2 None self) =
     Inr (Some (default_input now1)) \<and>
   map_of (default_input now1) ''timestamp'' = Some (Str (isoformat now1))"
proof -
  have "result (run_analysis (\<lambda>c p. Returns (f p)) now1 now2 input_data self) =
      Inr (f (case input_data of None \<Rightarrow> default_input now1 | Some d \<Rightarrow> d))"
    for f :: "'x payload \<Rightarrow> 'y option" and input_data
    using run_analysis_result [of "\<lambda>c p. Returns (f p)" now1 now2 input_data self] by auto
  from this [of "\<lambda>p. V" "Some []"] this [of "\<lambda>p. V" None]
    this [of Some "Some []"] this [of Some None]
  show ?thesis
    by (simp add: default_input_def)
qed




text \<open>
  Claim C10. When the facility raises during a run on a composed framework (one reached
  from \<^verbatim>\<open>__init__\<close> whose crew is set), the run leaves the framework as it was: the
  agent registry, the task registry and the crew are those of before the call, whether
  the exception was caught (the run returns \<^verbatim>\<open>None\<close>) or let through, and
  \<^verbatim>\<open>get_system_status\<close> afterwards reports 5 agents, 5 tasks and
  \<^verbatim>\<open>crew_initialized = True\<close>.
\<close>

theorem failed_run_keeps_composed_state:
  assumes "crew (session calls (init env)) = Some c"
    and "kickoff c (case input_data of None \<Rightarrow> default_input now1 | Some d \<Rightarrow> d) =
           Raises derives txt"
  shows "after (run_analysis kickoff now1 now2 input_data (session calls (init env))) =
           session calls (init env) \<and>
         agents (after (run_analysis kickoff now1 now2 input_data (session calls (init env)))) =
           agents (session calls (init env)) \<and>
         tasks (after (run_analysis kickoff now1 now2 input_data (session calls (init env)))) =
           tasks (session calls (init env)) \<and>
         crew (after (run_analysis kickoff now1 now2 input_data (session calls (init env)))) =
           Some c \<and>
         result (run_analysis kickoff now1 now2 input_data (session calls (init env))) =
           (if derives then Inr None else Inl (External False txt)) \<and>
         get_system_status now
             (after (run_analysis kickoff now1 now2 input_data (session calls (init env)))) =
           \<lparr> framework_status = ''Active'', agents_count = 5, tasks_count = 5,
             last_analysis = isoformat now, crew_initialized = True \<rparr>"
proof -
  let ?s = "session calls (init env)"
  have same: "after (run_analysis kickoff now1 now2 input_data ?s) = ?s"
    using assms(1) by (simp add: run_analysis_after)
  have "consistent ?s"
    by (rule session_consistent)
  moreover have "task_registry (llm ?s) \<noteq> []"
    by (simp add: task_registry_def)
  ultimately have "agents ?s = agent_registry (llm ?s)" and "tasks ?s = task_registry (llm ?s)"
    using assms(1) by (auto simp: consistent_def)
  then have status: "get_system_status now ?s =
      \<lparr> framework_status = ''Active'', agents_count = 5, tasks_count = 5,
        last_analysis = isoformat now, crew_initialized = True \<rparr>"
    using assms(1) by (simp add: get_system_status_def registry_lengths)
  have "result (run_analysis kickoff now1 now2 input_data ?s) =
      (if derives then Inr None else Inl (External False txt))"
    using run_analysis_result [of kickoff now1 now2 input_data ?s] assms unfolding same by auto
  with same status assms(1) show ?thesis by simp
qed

theorem failed_run_keeps_composed_state_witness:
  "crew (session [Call_setup_crew :: (unit, unit) call] (init key_only_env)) =
     Some (composed_crew (llm (init key_only_env))) \<and>
   (\<lambda>c p. Raises True ''boom'' :: unit outcome) (composed_crew (llm (init key_only_env)))
     (case (None :: unit payload option) of None \<Rightarrow> default_input reading_10h | Some d \<Rightarrow> d) =
     Raises True ''boom'' \<and>
   after (run_analysis (\<lambda>c p. Raises True ''boom'' :: unit outcome) reading_10h reading_10h
            (None :: unit payload option)
            (session [Call_setup_crew :: (unit, unit) call] (init key_only_env))) =
     session [Call_setup_crew :: (unit, unit) call] (init key_only_env) \<and>
   get_system_status reading_12h
      (after (run_analysis (\<lambda>c p. Raises True ''boom'' :: unit outcome) reading_10h reading_10h
            (None :: unit payload option)
            (session [Call_setup_crew :: (unit, unit) call] (init key_only_env)))) =
     \<lparr> framework_status = ''Active'', agents_count = 5, tasks_count = 5,
       last_analysis = isoformat reading_12h, crew_initialized = True \<rparr>"
proof -
  have h: "crew (session [Call_setup_crew :: (unit, unit) call] (init key_only_env)) =
     Some (composed_crew (llm (init key_only_env)))"
    by (simp add: consistent_setup_crew [OF consistent_init])
  have k: "(\<lambda>c p. Raises True ''boom'' :: unit outcome) (composed_crew (llm (init key_only_env)))
     (case (None :: unit payload option) of None \<Rightarrow> default_input reading_10h | Some d \<Rightarrow> d) =
     Raises True ''boom''"
    by simp
  note r = failed_run_keeps_composed_state
      [of "[Call_setup_crew :: (unit, unit) call]" key_only_env "composed_crew (llm (init key_only_env))"
          "\<lambda>c p. Raises True ''boom'' :: unit outcome" reading_10h
          "None :: unit payload option" True "''boom''" reading_10h reading_12h, OF h k]
  from r have c1: "after (run_analysis (\<lambda>c p. Raises True ''boom'' :: unit outcome) reading_10h reading_10h
            (None :: unit payload option)
            (session [Call_setup_crew :: (unit, unit) call] (init key_only_env))) =
     session [Call_setup_crew :: (unit, unit) call] (init key_only_env)"
    by (rule conjunct1)
  from r have c2: "get_system_status reading_12h
      (after (run_analysis (\<lambda>c p. Raises True ''boom'' :: unit outcome) reading_10h reading_10h
            (None :: unit payload option)
            (session [Call_setup_crew :: (unit, unit) call] (init key_only_env)))) =
     \<lparr> framework_status = ''Active'', agents_count = 5, tasks_count = 5,
       last_analysis = isoformat reading_12h, crew_initialized = True \<rparr>"
    by blast
  from h k c1 c2 show ?thesis
    by (intro conjI)
qed

subsection \<open>The timestamp of the status\<close>

text \<open>
  Claim C8 says that \<^verbatim>\<open>last_analysis\<close> is the time of the most recent run. The
  framework stores no time of any run: after a run at 10:00, a status requested at 12:00
  reports 12:00.
\<close>

theorem last_analysis_is_not_the_run_time:
  "last_analysis (get_system_status reading_12h
      (session [Call_run_analysis (\<lambda>c p. Returns None) reading_10h reading_10h None :: (unit, unit) call]
         (init key_only_env))) \<noteq> isoformat reading_10h"
  by (simp add: get_system_status_def isoformat_10h isoformat_12h)

text \<open>
  Claim C8, as the code has it. On every framework, and so after any run,
  \<^verbatim>\<open>last_analysis\<close> is the ISO text of the clock reading taken by the status request
  itself; it is computed anew by each request, and the request stores nothing in the
  framework.
\<close>

theorem last_analysis_is_the_request_time:
  "last_analysis (get_system_status now self) = isoformat now \<and>
   last_analysis (get_system_status now (after (run_analysis kickoff now1 now2 input_data self))) =
     isoformat now \<and>
   perform (Call_get_system_status now) self = self"
  by (simp add: get_system_status_def)

end
